theory Spec2Isabelle
  imports Main
begin

section \<open>Values handled by the request pipeline of server.py\<close>

text \<open>
  A Python float is either finite or one of the three non-finite values. The pipeline never
  does arithmetic on a float: it only asks \<open>math.isnan\<close> and \<open>math.isinf\<close>, so a finite
  float is kept as an opaque mantissa/exponent pair.
\<close>

datatype pyfloat = Finite int int | PosInf | NegInf | NaN

fun isnan :: "pyfloat \<Rightarrow> bool" where
  "isnan NaN = True"
| "isnan _ = False"

fun isinf :: "pyfloat \<Rightarrow> bool" where
  "isinf PosInf = True"
| "isinf NegInf = True"
| "isinf _ = False"

text \<open>
  The key of a dict. The request body and \<open>model_dump(mode='json')\<close> have string keys only;
  the fallback \<open>model_dump()\<close> of line 120 keeps the keys the model holds: a str, an int, a
  float, a bool, \<open>None\<close>, or another hashable object (a tuple, a date), which carries the text
  of \<open>str(key)\<close>. No function of server.py reads or changes a key.
\<close>

datatype pykey = KStr string | KInt int | KFloat pyfloat | KBool bool | KNone | KOther string

text \<open>
  The objects that \<open>clean_nan\<close>, \<open>has_nan\<close> and \<open>deep_clean\<close> tell apart with
  \<open>isinstance\<close> and \<open>is None\<close>: a dict (its items in insertion order), a list, a float, an
  int, a str, a bool and \<open>None\<close>. None of the three functions has a case for a tuple, which
  the fallback \<open>model_dump()\<close> keeps: \<open>PTuple xs s\<close> is the tuple of the elements \<open>xs\<close>, and
  \<open>s\<close> is the text \<open>str(obj)\<close> returns for it. \<open>POther s\<close> is an object that is an instance of
  none of these types (a \<open>Decimal\<close>, a date, a set), with \<open>s\<close> the text of \<open>str(obj)\<close>. An
  instance of a subclass counts as its base type, as \<open>isinstance\<close> has it.
\<close>

datatype pyval =
    PDict "(pykey \<times> pyval) list"
  | PList "pyval list"
  | PTuple "pyval list" string
  | PFloat pyfloat
  | PInt int
  | PStr string
  | PBool bool
  | PNone
  | POther string

section \<open>The result sanitizer\<close>

text \<open>\<open>clean_nan\<close>, server.py lines 94-103.\<close>

fun clean_nan :: "pyval \<Rightarrow> pyval" where
  "clean_nan (PDict kvs) = PDict (map (\<lambda>(k, v). (k, clean_nan v)) kvs)"
| "clean_nan (PList xs) = PList (map clean_nan xs)"
| "clean_nan (PFloat f) = (if isnan f \<or> isinf f then PNone else PFloat f)"
| "clean_nan obj = obj"

text \<open>\<open>has_nan\<close>, server.py lines 106-113.\<close>

fun has_nan :: "pyval \<Rightarrow> bool" where
  "has_nan (PFloat f) = (isnan f \<or> isinf f)"
| "has_nan (PDict kvs) = list_ex (\<lambda>(k, v). has_nan v) kvs"
| "has_nan (PList xs) = list_ex has_nan xs"
| "has_nan obj = False"

text \<open>
  \<open>deep_clean\<close>, server.py lines 138-152. A tuple and an object of another type reach the
  last branch, \<open>str(obj)\<close>.
\<close>

fun deep_clean :: "pyval \<Rightarrow> pyval" where
  "deep_clean (PDict kvs) =
     PDict (map (\<lambda>(k, v). (k, deep_clean v)) (filter (\<lambda>(k, v). v \<noteq> PNone) kvs))"
| "deep_clean (PList xs) = PList (map deep_clean (filter (\<lambda>item. item \<noteq> PNone) xs))"
| "deep_clean (PInt i) = PInt i"
| "deep_clean (PStr s) = PStr s"
| "deep_clean (PBool b) = PBool b"
| "deep_clean (PFloat f) = (if isnan f \<or> isinf f then PNone else PFloat f)"
| "deep_clean PNone = PNone"
| "deep_clean (PTuple xs s) = PStr s"
| "deep_clean (POther s) = PStr s"

text \<open>
  The encoder of the standard library writes an int through its decimal text, and the
  interpreter refuses to convert an int of more than 4300 digits (\<open>ValueError\<close>):
  \<open>int_limit\<close>, with its 4301 digits, is the least positive int it refuses.
\<close>

definition int_limit :: int where
  "int_limit = 10 ^ 4300"

definition int_digits_ok :: "int \<Rightarrow> bool" where
  "int_digits_ok i = (\<bar>i\<bar> < int_limit)"

text \<open>
  \<open>json.dumps\<close> accepts as a key a str, an int, a float, a bool or \<open>None\<close>, and raises
  \<open>TypeError\<close> on any other key.
\<close>

fun key_dumps_ok :: "pykey \<Rightarrow> bool" where
  "key_dumps_ok (KInt i) = int_digits_ok i"
| "key_dumps_ok (KOther s) = False"
| "key_dumps_ok k = True"

text \<open>
  \<open>json.dumps(cleaned)\<close> with its default arguments, as line 132 calls it: whether it
  returns. It raises \<open>TypeError\<close> on an object or key of a type it has no encoding for and
  \<open>ValueError\<close> on an int of more than 4300 digits; both are caught at line 134. It encodes
  a tuple as it does a list. A tree has no cycle, and by default a non-finite float is
  written out (\<open>allow_nan=True\<close>) rather than refused.
\<close>

fun json_dumps_ok :: "pyval \<Rightarrow> bool" where
  "json_dumps_ok (PDict kvs) = list_all (\<lambda>(k, v). key_dumps_ok k \<and> json_dumps_ok v) kvs"
| "json_dumps_ok (PList xs) = list_all json_dumps_ok xs"
| "json_dumps_ok (PTuple xs s) = list_all json_dumps_ok xs"
| "json_dumps_ok (PInt i) = int_digits_ok i"
| "json_dumps_ok (POther s) = False"
| "json_dumps_ok obj = True"

text \<open>
  Whether a non-finite float occurs in the tree at any depth: as a value of a dict, an
  element of a list or of a tuple, or a key.
\<close>

fun key_non_finite :: "pykey \<Rightarrow> bool" where
  "key_non_finite (KFloat f) = (isnan f \<or> isinf f)"
| "key_non_finite k = False"

fun contains_non_finite :: "pyval \<Rightarrow> bool" where
  "contains_non_finite (PFloat f) = (isnan f \<or> isinf f)"
| "contains_non_finite (PDict kvs) =
     list_ex (\<lambda>(k, v). key_non_finite k \<or> contains_non_finite v) kvs"
| "contains_non_finite (PList xs) = list_ex contains_non_finite xs"
| "contains_non_finite (PTuple xs s) = list_ex contains_non_finite xs"
| "contains_non_finite obj = False"

text \<open>
  A tree is JSON-encodable when the encoder accepts it and the text it writes is JSON, which
  has no literal for NaN or an infinity. This is \<open>json.dumps(t, allow_nan=False)\<close> returning,
  the call with which the framework renders the body of a response.
\<close>

definition is_json_encodable :: "pyval \<Rightarrow> bool" where
  "is_json_encodable t = (json_dumps_ok t \<and> \<not> contains_non_finite t)"

text \<open>
  Lines 123-156: the value of \<open>cleaned\<close> that \<open>calculate\<close> returns for the dict \<open>dumped\<close> that
  \<open>model_dump\<close> produced, when the tree is within the recursion limit. \<open>cleaned\<close> is a dict
  throughout, so \<open>cleaned.keys()\<close> in the log line 133 is defined.
\<close>

definition sanitize :: "(pykey \<times> pyval) list \<Rightarrow> pyval" where
  "sanitize dumped =
     (let cleaned = clean_nan (PDict dumped);
          cleaned = (if has_nan cleaned then clean_nan cleaned else cleaned)
      in if json_dumps_ok cleaned then cleaned else deep_clean cleaned)"

section \<open>The payload normalizer\<close>

text \<open>
  Line 80: the dict comprehension that builds \<open>clean_payload\<close> from \<open>payload\<close>. The payload is
  the JSON object of the request body, so its keys are strings (\<open>KStr\<close>); the comprehension
  does not look at them.
\<close>

definition clean_payload :: "(pykey \<times> pyval) list \<Rightarrow> (pykey \<times> pyval) list" where
  "clean_payload payload = filter (\<lambda>(k, v). v \<noteq> PNone \<and> v \<noteq> PStr ''undefined'') payload"

section \<open>The request handler and its error responses\<close>

text \<open>
  An exception as the handlers see it. \<open>ValidationError msg errs tb\<close> is pydantic's
  \<open>ValidationError\<close> with \<open>str(e) = msg\<close> and \<open>e.errors() = errs\<close>; \<open>Exception tn msg tb\<close> is an
  exception of any other class, with \<open>type(e).__name__ = tn\<close> and \<open>str(e) = msg\<close>. In both,
  \<open>tb\<close> is the text \<open>traceback.format_exc()\<close> returns while the exception is handled.
\<close>

datatype exn =
    ValidationError string "pyval list" string
  | Exception string string string

fun str_exc :: "exn \<Rightarrow> string" where
  "str_exc (ValidationError msg errs tb) = msg"
| "str_exc (Exception tn msg tb) = msg"

fun type_name :: "exn \<Rightarrow> string" where
  "type_name (ValidationError msg errs tb) = ''ValidationError''"
| "type_name (Exception tn msg tb) = tn"

fun format_exc :: "exn \<Rightarrow> string" where
  "format_exc (ValidationError msg errs tb) = tb"
| "format_exc (Exception tn msg tb) = tb"

fun is_validation_error :: "exn \<Rightarrow> bool" where
  "is_validation_error (ValidationError msg errs tb) = True"
| "is_validation_error (Exception tn msg tb) = False"

record JSONResponse =
  status_code :: nat
  content :: pyval
  headers :: "(string \<times> string) list"

text \<open>
  \<open>global_exception_handler\<close>, server.py lines 49-58. Its content is three strings, which
  the constructor of the response always renders.
\<close>

definition global_exception_handler :: "exn \<Rightarrow> JSONResponse" where
  "global_exception_handler exc =
     \<lparr>status_code = 500,
      content = PDict [(KStr ''error'', PStr ''InternalError''),
                       (KStr ''message'', PStr (str_exc exc)),
                       (KStr ''type'', PStr (type_name exc))],
      headers = [(''Access-Control-Allow-Origin'', ''*'')]\<rparr>"

text \<open>
  What \<open>calculate\<close> calls from outside server.py is a parameter. The module
  \<open>financial_engine\<close> is not part of the sources: from it come the constructor
  \<open>FinancialInputs\<close>, the method \<open>_engine.calculate\<close>, and \<open>model_dump\<close> of the result in its
  two modes. Each either raises or returns; \<open>model_dump\<close> returns a dict. The log lines 84
  and 87 read the fields \<open>inputs.kWp\<close>, \<open>inputs.modo\<close>, \<open>inputs.capex\<close> and \<open>result.kpis.van\<close>,
  \<open>result.kpis.tir\<close> of these objects: \<open>log_inputs\<close> and \<open>log_result\<close> say whether that raises.
  The other log lines format dicts, lists and strings. \<open>json_error\<close> is the exception that
  \<open>json.dumps(content, allow_nan=False)\<close> raises on a content it refuses: its class and text
  depend on the first object the encoder refuses.
\<close>

record ('inp, 'res) collaborators =
  FinancialInputs :: "(pykey \<times> pyval) list \<Rightarrow> exn + 'inp"
  log_inputs :: "'inp \<Rightarrow> exn + unit"
  engine_calculate :: "'inp \<Rightarrow> exn + 'res"
  log_result :: "'res \<Rightarrow> exn + unit"
  model_dump_json :: "'res \<Rightarrow> exn + (pykey \<times> pyval) list"
  model_dump :: "'res \<Rightarrow> exn + (pykey \<times> pyval) list"
  json_error :: "pyval \<Rightarrow> exn"

text \<open>
  Lines 116-120: \<open>model_dump(mode='json')\<close>, and on any exception \<open>model_dump()\<close> instead.
\<close>

definition dumped ::
  "('inp, 'res) collaborators \<Rightarrow> 'res \<Rightarrow> exn + (pykey \<times> pyval) list" where
  "dumped env result =
     (case model_dump_json env result of
        Inr d \<Rightarrow> Inr d
      | Inl dump_err \<Rightarrow> model_dump env result)"

text \<open>
  The \<open>try\<close> block of \<open>calculate\<close>, lines 77-156. It returns what the block returns or the
  exception that leaves it, together with the inputs \<open>_engine.calculate\<close> was called with
  while it ran.
\<close>

definition try_block ::
  "('inp, 'res) collaborators \<Rightarrow> (pykey \<times> pyval) list \<Rightarrow> (exn + pyval) \<times> 'inp list" where
  "try_block env payload =
     (case FinancialInputs env (clean_payload payload) of
        Inl e \<Rightarrow> (Inl e, [])
      | Inr inputs \<Rightarrow>
          (case log_inputs env inputs of
             Inl e \<Rightarrow> (Inl e, [])
           | Inr logged \<Rightarrow>
               (case engine_calculate env inputs of
                  Inl e \<Rightarrow> (Inl e, [inputs])
                | Inr result \<Rightarrow>
                    (case log_result env result of
                       Inl e \<Rightarrow> (Inl e, [inputs])
                     | Inr logged \<Rightarrow>
                         (case dumped env result of
                            Inl e \<Rightarrow> (Inl e, [inputs])
                          | Inr d \<Rightarrow> (Inr (sanitize d), [inputs]))))))"

text \<open>
  \<open>JSONResponse(status_code=..., content=..., headers=...)\<close>: the constructor renders the
  content at once with \<open>json.dumps(content, allow_nan=False)\<close> and raises what that raises.
\<close>

definition JSONResponse_init ::
  "('inp, 'res) collaborators \<Rightarrow> nat \<Rightarrow> pyval \<Rightarrow> (string \<times> string) list \<Rightarrow> exn + JSONResponse" where
  "JSONResponse_init env status body hdrs =
     (if is_json_encodable body
      then Inr \<lparr>status_code = status, content = body, headers = hdrs\<rparr>
      else Inl (json_error env body))"

text \<open>
  The two \<open>except\<close> clauses of \<open>calculate\<close>, lines 158-176, in their order. Each returns the
  response it builds, or raises what the constructor of the response raises.
\<close>

fun except_clauses :: "('inp, 'res) collaborators \<Rightarrow> exn \<Rightarrow> exn + JSONResponse" where
  "except_clauses env (ValidationError msg errs tb) =
     JSONResponse_init env 422
       (PDict [(KStr ''error'', PStr ''ValidationError''), (KStr ''message'', PStr msg),
               (KStr ''details'', PList errs)])
       [(''Access-Control-Allow-Origin'', ''*'')]"
| "except_clauses env (Exception tn msg tb) =
     JSONResponse_init env 500
       (PDict [(KStr ''error'', PStr ''InternalError''), (KStr ''message'', PStr msg),
               (KStr ''traceback'', PStr tb)])
       [(''Access-Control-Allow-Origin'', ''*'')]"

text \<open>
  What a call of \<open>calculate\<close> ends in: it returns the cleaned tree, which the framework
  then encodes as the body of a 200 response; it returns an explicit \<open>JSONResponse\<close>; or an
  exception raised inside an \<open>except\<close> clause leaves it, and the application answers with
  \<open>global_exception_handler\<close>.
\<close>

datatype reply = Return pyval | Respond JSONResponse | Raise exn

definition calculate ::
  "('inp, 'res) collaborators \<Rightarrow> (pykey \<times> pyval) list \<Rightarrow> reply \<times> 'inp list" where
  "calculate env payload =
     (case try_block env payload of
        (Inr cleaned, calls) \<Rightarrow> (Return cleaned, calls)
      | (Inl e, calls) \<Rightarrow>
          (case except_clauses env e of
             Inr response \<Rightarrow> (Respond response, calls)
           | Inl raised \<Rightarrow> (Raise raised, calls)))"

section \<open>The sanitizer as the specification words it\<close>

text \<open>
  The primary sanitize pass in the words of the specification: in a mapping every value is
  sanitized and the keys stay; in a sequence, the ordered list of the JSON representation,
  every element is sanitized in order; a float that is NaN or an infinity becomes the
  "no value" marker; a finite float and every other value passes through.
\<close>

fun sanitize_spec :: "pyval \<Rightarrow> pyval" where
  "sanitize_spec (PDict kvs) = PDict (zip (map fst kvs) (map (\<lambda>kv. sanitize_spec (snd kv)) kvs))"
| "sanitize_spec (PList xs) = PList (map sanitize_spec xs)"
| "sanitize_spec (PFloat NaN) = PNone"
| "sanitize_spec (PFloat PosInf) = PNone"
| "sanitize_spec (PFloat NegInf) = PNone"
| "sanitize_spec (PFloat (Finite m e)) = PFloat (Finite m e)"
| "sanitize_spec (PInt i) = PInt i"
| "sanitize_spec (PStr s) = PStr s"
| "sanitize_spec (PBool b) = PBool b"
| "sanitize_spec PNone = PNone"
| "sanitize_spec (PTuple xs s) = PTuple xs s"
| "sanitize_spec (POther s) = POther s"

text \<open>
  The deep-clean fallback in the words of the specification: the tree is rebuilt, the
  entries of a mapping or sequence whose value is null are dropped, an integer, string,
  boolean or finite float is kept, a non-finite float becomes the "no value" marker, and a
  value of an unrecognized type becomes its string representation.
\<close>

fun deep_clean_spec :: "pyval \<Rightarrow> pyval" where
  "deep_clean_spec (PDict kvs) = PDict [(k, deep_clean_spec v). (k, v) \<leftarrow> kvs, v \<noteq> PNone]"
| "deep_clean_spec (PList xs) = PList [deep_clean_spec x. x \<leftarrow> xs, x \<noteq> PNone]"
| "deep_clean_spec (PInt i) = PInt i"
| "deep_clean_spec (PStr s) = PStr s"
| "deep_clean_spec (PBool b) = PBool b"
| "deep_clean_spec (PFloat (Finite m e)) = PFloat (Finite m e)"
| "deep_clean_spec (PFloat PosInf) = PNone"
| "deep_clean_spec (PFloat NegInf) = PNone"
| "deep_clean_spec (PFloat NaN) = PNone"
| "deep_clean_spec PNone = PNone"
| "deep_clean_spec (PTuple xs s) = PStr s"
| "deep_clean_spec (POther s) = PStr s"

text \<open>The finite scalars: an integer, a string, a boolean, null, or a finite float.\<close>

fun finite_scalar :: "pyval \<Rightarrow> bool" where
  "finite_scalar (PInt i) = True"
| "finite_scalar (PStr s) = True"
| "finite_scalar (PBool b) = True"
| "finite_scalar PNone = True"
| "finite_scalar (PFloat f) = (\<not> isnan f \<and> \<not> isinf f)"
| "finite_scalar obj = False"

section \<open>Trees the sanitizer makes encodable\<close>



text \<open>
  Every int among the dict values and list elements of the tree has at most 4300 digits,
  and every key is one the encoder accepts and no non-finite float.
\<close>

fun ints_and_keys_fit :: "pyval \<Rightarrow> bool" where
  "ints_and_keys_fit (PDict kvs) =
     list_all (\<lambda>(k, v). key_dumps_ok k \<and> \<not> key_non_finite k \<and> ints_and_keys_fit v) kvs"
| "ints_and_keys_fit (PList xs) = list_all ints_and_keys_fit xs"
| "ints_and_keys_fit (PInt i) = int_digits_ok i"
| "ints_and_keys_fit obj = True"

section \<open>The cleaners with every operation that can raise\<close>

text \<open>
  \<open>clean_nan\<close> and \<open>deep_clean\<close> call themselves, call \<open>obj.items()\<close>, iterate over \<open>obj\<close>, and
  call \<open>math.isnan\<close>, \<open>math.isinf\<close> and \<open>str\<close>. A call nested deeper than the interpreter
  allows raises \<open>RecursionError\<close>, and each of the other operations raises when applied to
  the wrong object. Here they are with that branch, and below the two functions are
  written once more over them, statement by statement, with a result that is an exception
  or a value. \<open>isinstance\<close> and \<open>is None\<close> never raise. What an operation does to an object of
  another type is left open (\<open>NotModelled\<close>), as is \<open>str\<close> of the objects whose text the
  model does not hold.
\<close>

datatype pyerr = AttributeError | TypeError | OverflowError | RecursionError | NotModelled

fun isinstance_dict :: "pyval \<Rightarrow> bool" where
  "isinstance_dict (PDict kvs) = True"
| "isinstance_dict obj = False"

fun isinstance_list :: "pyval \<Rightarrow> bool" where
  "isinstance_list (PList xs) = True"
| "isinstance_list obj = False"

fun isinstance_float :: "pyval \<Rightarrow> bool" where
  "isinstance_float (PFloat f) = True"
| "isinstance_float obj = False"

fun isinstance_int_str_bool :: "pyval \<Rightarrow> bool" where
  "isinstance_int_str_bool (PInt i) = True"
| "isinstance_int_str_bool (PStr s) = True"
| "isinstance_int_str_bool (PBool b) = True"
| "isinstance_int_str_bool obj = False"

fun py_items :: "pyval \<Rightarrow> pyerr + (pykey \<times> pyval) list" where
  "py_items (PDict kvs) = Inr kvs"
| "py_items (POther s) = Inl NotModelled"
| "py_items obj = Inl AttributeError"

text \<open>The key of a dict as an object: iterating over a dict yields its keys.\<close>

fun key_obj :: "pykey \<Rightarrow> pyval" where
  "key_obj (KStr s) = PStr s"
| "key_obj (KInt i) = PInt i"
| "key_obj (KFloat f) = PFloat f"
| "key_obj (KBool b) = PBool b"
| "key_obj KNone = PNone"
| "key_obj (KOther s) = POther s"

fun py_iter :: "pyval \<Rightarrow> pyerr + pyval list" where
  "py_iter (PList xs) = Inr xs"
| "py_iter (PTuple xs s) = Inr xs"
| "py_iter (PDict kvs) = Inr (map (\<lambda>(k, v). key_obj k) kvs)"
| "py_iter (PStr s) = Inr (map (\<lambda>c. PStr [c]) s)"
| "py_iter (POther s) = Inl NotModelled"
| "py_iter obj = Inl TypeError"

text \<open>
  \<open>math.isnan\<close> and \<open>math.isinf\<close> convert an int or a bool to a float first, which raises
  \<open>OverflowError\<close> for an int that rounds beyond the largest double.
\<close>

fun math_isnan :: "pyval \<Rightarrow> pyerr + bool" where
  "math_isnan (PFloat f) = Inr (isnan f)"
| "math_isnan (PInt i) = (if \<bar>i\<bar> < 2 ^ 1024 - 2 ^ 970 then Inr False else Inl OverflowError)"
| "math_isnan (PBool b) = Inr False"
| "math_isnan (POther s) = Inl NotModelled"
| "math_isnan obj = Inl TypeError"

fun math_isinf :: "pyval \<Rightarrow> pyerr + bool" where
  "math_isinf (PFloat f) = Inr (isinf f)"
| "math_isinf (PInt i) = (if \<bar>i\<bar> < 2 ^ 1024 - 2 ^ 970 then Inr False else Inl OverflowError)"
| "math_isinf (PBool b) = Inr False"
| "math_isinf (POther s) = Inl NotModelled"
| "math_isinf obj = Inl TypeError"

text \<open>
  \<open>str(obj)\<close>: for a tuple and for an object of another type, the text the value carries.
\<close>

fun py_str :: "pyval \<Rightarrow> pyerr + string" where
  "py_str (POther s) = Inr s"
| "py_str (PTuple xs s) = Inr s"
| "py_str obj = Inl NotModelled"

text \<open>
  A comprehension evaluates its elements in order and stops at the first one that raises.
\<close>

fun collect :: "('e + 'a) list \<Rightarrow> 'e + 'a list" where
  "collect [] = Inr []"
| "collect (Inl e # rs) = Inl e"
| "collect (Inr x # rs) = (case collect rs of Inl e \<Rightarrow> Inl e | Inr xs \<Rightarrow> Inr (x # xs))"

text \<open>
  \<open>clean_nan\<close>, lines 94-103, over these operations. The first argument is the number of
  nested calls of the function that the recursion limit of the interpreter (1000 frames by
  default, some of them in use when \<open>calculate\<close> runs) still allows: with none left, the call
  raises \<open>RecursionError\<close>; otherwise the calls it makes have one less.
\<close>

fun clean_nan_raising :: "nat \<Rightarrow> pyval \<Rightarrow> pyerr + pyval" where
  "clean_nan_raising 0 obj = Inl RecursionError"
| "clean_nan_raising (Suc n) obj =
     (if isinstance_dict obj then
        (case py_items obj of
           Inl e \<Rightarrow> Inl e
         | Inr items \<Rightarrow>
             (case collect (map (\<lambda>(k, v). case clean_nan_raising n v of
                                              Inl e \<Rightarrow> Inl e | Inr v' \<Rightarrow> Inr (k, v')) items) of
                Inl e \<Rightarrow> Inl e
              | Inr items' \<Rightarrow> Inr (PDict items')))
      else if isinstance_list obj then
        (case py_iter obj of
           Inl e \<Rightarrow> Inl e
         | Inr items \<Rightarrow>
             (case collect (map (clean_nan_raising n) items) of
                Inl e \<Rightarrow> Inl e
              | Inr items' \<Rightarrow> Inr (PList items')))
      else if isinstance_float obj then
        (case math_isnan obj of
           Inl e \<Rightarrow> Inl e
         | Inr is_nan \<Rightarrow>
             if is_nan then Inr PNone
             else (case math_isinf obj of
                     Inl e \<Rightarrow> Inl e
                   | Inr is_inf \<Rightarrow> if is_inf then Inr PNone else Inr obj))
      else Inr obj)"

text \<open>\<open>deep_clean\<close>, lines 138-152, over these operations, in the same way.\<close>

fun deep_clean_raising :: "nat \<Rightarrow> pyval \<Rightarrow> pyerr + pyval" where
  "deep_clean_raising 0 obj = Inl RecursionError"
| "deep_clean_raising (Suc n) obj =
     (if isinstance_dict obj then
        (case py_items obj of
           Inl e \<Rightarrow> Inl e
         | Inr items \<Rightarrow>
             (case collect (map (\<lambda>(k, v). case deep_clean_raising n v of
                                              Inl e \<Rightarrow> Inl e | Inr v' \<Rightarrow> Inr (k, v'))
                                (filter (\<lambda>(k, v). v \<noteq> PNone) items)) of
                Inl e \<Rightarrow> Inl e
              | Inr items' \<Rightarrow> Inr (PDict items')))
      else if isinstance_list obj then
        (case py_iter obj of
           Inl e \<Rightarrow> Inl e
         | Inr items \<Rightarrow>
             (case collect (map (deep_clean_raising n) (filter (\<lambda>item. item \<noteq> PNone) items)) of
                Inl e \<Rightarrow> Inl e
              | Inr items' \<Rightarrow> Inr (PList items')))
      else if isinstance_int_str_bool obj then Inr obj
      else if isinstance_float obj then
        (case math_isnan obj of
           Inl e \<Rightarrow> Inl e
         | Inr is_nan \<Rightarrow>
             if is_nan then Inr PNone
             else (case math_isinf obj of
                     Inl e \<Rightarrow> Inl e
                   | Inr is_inf \<Rightarrow> if is_inf then Inr PNone else Inr obj))
      else if obj = PNone then Inr PNone
      else (case py_str obj of Inl e \<Rightarrow> Inl e | Inr s \<Rightarrow> Inr (PStr s)))"

text \<open>
  The number of nested calls \<open>clean_nan\<close> makes on a tree: one for the tree, and below a dict
  or a list one more than the deepest of its values or elements. It does not enter a tuple.
\<close>

fun max_list :: "nat list \<Rightarrow> nat" where
  "max_list [] = 0"
| "max_list (x # xs) = max x (max_list xs)"

fun depth :: "pyval \<Rightarrow> nat" where
  "depth (PDict kvs) = Suc (max_list (map (\<lambda>(k, v). depth v) kvs))"
| "depth (PList xs) = Suc (max_list (map depth xs))"
| "depth obj = Suc 0"

text \<open>The integer 0 inside \<open>n\<close> lists, one in the other.\<close>

fun nested :: "nat \<Rightarrow> pyval" where
  "nested 0 = PInt 0"
| "nested (Suc n) = PList [nested n]"

text \<open>
  A tree of mappings, sequences and scalars: dicts, lists, floats, ints, strings, booleans
  and \<open>None\<close> only.
\<close>

fun recognized :: "pyval \<Rightarrow> bool" where
  "recognized (PDict kvs) = list_all (\<lambda>(k, v). recognized v) kvs"
| "recognized (PList xs) = list_all recognized xs"
| "recognized (PTuple xs s) = False"
| "recognized (POther s) = False"
| "recognized obj = True"

text \<open>
  Line 80 over these operations. \<open>payload\<close> is the dict the framework passes to
  \<open>calculate\<close>; \<open>is not None\<close> and the comparison with a string never raise.
\<close>

definition clean_payload_raising ::
  "(pykey \<times> pyval) list \<Rightarrow> pyerr + (pykey \<times> pyval) list" where
  "clean_payload_raising payload =
     (case py_items (PDict payload) of
        Inl e \<Rightarrow> Inl e
      | Inr items \<Rightarrow> Inr (filter (\<lambda>(k, v). v \<noteq> PNone \<and> v \<noteq> PStr ''undefined'') items))"

section \<open>An input schema for the examples\<close>

text \<open>
  Modelled from the spec: the class \<open>FinancialInputs\<close> is declared in the module
  \<open>financial_engine\<close>, which is not among the sources. The specification says of it that
  \<open>kWp\<close> is a required field, that a payload with \<open>kWp\<close>, \<open>modo\<close> and \<open>capex\<close> is accepted, and
  that a failure lists one entry per invalid field with the field's location and a message.
  The theorems about \<open>calculate\<close> hold for any constructor; this one serves their examples.
\<close>

definition required_fields :: "string list" where
  "required_fields = [''kWp'']"

definition missing_entry :: "string \<Rightarrow> pyval" where
  "missing_entry field =
     PDict [(KStr ''location'', PList [PStr field]), (KStr ''message'', PStr ''Field required'')]"

definition FinancialInputs_spec :: "(pykey \<times> pyval) list \<Rightarrow> exn + (pykey \<times> pyval) list" where
  "FinancialInputs_spec payload =
     (let missing = filter (\<lambda>field. KStr field \<notin> set (map fst payload)) required_fields
      in if missing = [] then Inr payload
         else Inl (ValidationError ''validation error for FinancialInputs''
                     (map missing_entry missing) []))"

section \<open>Properties of the result sanitizer\<close>

lemma has_nan_clean_nan: "\<not> has_nan (clean_nan t)"
  by (induction t rule: clean_nan.induct) (auto simp: list_ex_iff)








lemma has_nan_deep_clean: "\<not> has_nan (deep_clean t)"
  by (induction t rule: deep_clean.induct) (auto simp: list_ex_iff)

lemma deep_clean_encodable: "ints_and_keys_fit t \<Longrightarrow> is_json_encodable (deep_clean t)"
  unfolding is_json_encodable_def
  by (induction t rule: deep_clean.induct) (auto simp: list_all_iff list_ex_iff)

lemma clean_nan_fixed: "\<not> has_nan t \<Longrightarrow> clean_nan t = t"
proof (induction t rule: clean_nan.induct)
  case (1 kvs)
  have "map (\<lambda>(k, v). (k, clean_nan v)) kvs = map (\<lambda>kv. kv) kvs"
  proof (rule map_cong [OF refl])
    fix kv assume kv: "kv \<in> set kvs"
    obtain k v where eq: "kv = (k, v)" by (cases kv)
    from 1(2) kv eq have "\<not> has_nan v" by (auto simp: list_ex_iff)
    with 1(1) kv eq show "(case kv of (k, v) \<Rightarrow> (k, clean_nan v)) = kv" by simp
  qed
  then show ?case by simp
next
  case (2 xs)
  have "map clean_nan xs = map (\<lambda>x. x) xs"
    using 2 by (intro map_cong [OF refl]) (auto simp: list_ex_iff)
  then show ?case by simp
qed auto

lemma sanitize_eq:
  "sanitize d = (if json_dumps_ok (clean_nan (PDict d)) then clean_nan (PDict d)
                 else deep_clean (clean_nan (PDict d)))"
  unfolding sanitize_def Let_def using has_nan_clean_nan [of "PDict d"] by presburger




lemma int_limit_ge_10: "10 \<le> int_limit"
proof -
  have "(10::int) ^ 1 \<le> 10 ^ 4300" by (rule power_increasing) simp_all
  then show ?thesis unfolding int_limit_def by (simp only: power_one_right)
qed

lemma small_int_digits_ok: "\<bar>i\<bar> < 10 \<Longrightarrow> int_digits_ok i"
  using int_limit_ge_10 by (simp add: int_digits_ok_def)

lemma not_int_digits_ok: "\<not> int_digits_ok int_limit"
  using int_limit_ge_10 by (simp add: int_digits_ok_def)



lemma clean_nan_idem: "clean_nan (clean_nan t) = clean_nan t"
  by (simp add: clean_nan_fixed has_nan_clean_nan)

lemma clean_nan_float: "clean_nan (PFloat f) = sanitize_spec (PFloat f)"
  by (cases f) simp_all

lemma deep_clean_float: "deep_clean (PFloat f) = deep_clean_spec (PFloat f)"
  by (cases f) simp_all

lemma zip_fst_map_snd: "zip (map fst kvs) (map (\<lambda>kv. f (snd kv)) kvs) = map (\<lambda>(k, v). (k, f v)) kvs"
  by (induction kvs) auto

lemma clean_nan_is_sanitize_spec: "clean_nan t = sanitize_spec t"
proof (induction t rule: clean_nan.induct)
  case (1 kvs)
  have "map (\<lambda>(k, v). (k, clean_nan v)) kvs = map (\<lambda>(k, v). (k, sanitize_spec v)) kvs"
    by (rule map_cong [OF refl]) (auto simp: 1)
  then show ?case by (simp add: zip_fst_map_snd)
next
  case (2 xs)
  then show ?case by simp
next
  case (3 f)
  show ?case by (rule clean_nan_float)
qed simp_all

lemma clean_nan_finite_scalar: "finite_scalar v \<Longrightarrow> clean_nan v = v"
  by (cases v) auto

text \<open>
  C2. \<open>clean_nan\<close> is the primary sanitize pass of the specification on every tree: the two
  functions are equal. In particular a finite scalar \<open>v\<close> (an integer, a string, a boolean,
  null or a finite float) is returned unchanged.
\<close>

theorem clean_nan_refines_spec:
  "clean_nan t = sanitize_spec t \<and> (finite_scalar v \<longrightarrow> clean_nan v = v)"
  using clean_nan_is_sanitize_spec [of t] clean_nan_finite_scalar [of v] by blast

theorem clean_nan_refines_spec_witness:
  "finite_scalar (PFloat (Finite 5 (-1)))
   \<and> clean_nan (PFloat (Finite 5 (-1))) = PFloat (Finite 5 (-1))
   \<and> clean_nan (PDict [(KStr ''kpis'', PDict [(KStr ''tir'', PFloat NaN), (KStr ''van'', PInt 12)]),
                        (KStr ''flujos'', PList [PFloat NegInf, PBool True, PStr ''x''])])
     = sanitize_spec (PDict [(KStr ''kpis'', PDict [(KStr ''tir'', PFloat NaN), (KStr ''van'', PInt 12)]),
                             (KStr ''flujos'', PList [PFloat NegInf, PBool True, PStr ''x''])])"
  using clean_nan_refines_spec
    [of "PDict [(KStr ''kpis'', PDict [(KStr ''tir'', PFloat NaN), (KStr ''van'', PInt 12)]),
                (KStr ''flujos'', PList [PFloat NegInf, PBool True, PStr ''x''])]"
        "PFloat (Finite 5 (-1))"]
  by simp

lemma deep_clean_not_none: "\<not> has_nan v \<Longrightarrow> v \<noteq> PNone \<Longrightarrow> deep_clean v \<noteq> PNone"
  by (cases v) auto

lemma deep_clean_twice: "\<not> has_nan t \<Longrightarrow> deep_clean (deep_clean t) = deep_clean t"
proof (induction t rule: deep_clean.induct)
  case (1 kvs)
  let ?kept = "filter (\<lambda>(k, v). v \<noteq> PNone) kvs"
  let ?once = "map (\<lambda>(k, v). (k, deep_clean v)) ?kept"
  have nn: "\<not> has_nan v" if "(k, v) \<in> set kvs" for k v
    using 1(2) that by (auto simp: list_ex_iff)
  have "\<forall>kv \<in> set ?once. case kv of (k, v) \<Rightarrow> v \<noteq> PNone"
    using nn deep_clean_not_none by fastforce
  then have "filter (\<lambda>(k, v). v \<noteq> PNone) ?once = ?once"
    by (intro filter_True) blast
  moreover have "map (\<lambda>(k, v). (k, deep_clean v)) ?once = ?once"
  proof -
    have "map (\<lambda>(k, v). (k, deep_clean v)) ?once
          = map (\<lambda>(k, v). (k, deep_clean (deep_clean v))) ?kept"
      by (simp add: case_prod_beta comp_def)
    also have "\<dots> = ?once"
    proof (rule map_cong [OF refl])
      fix kv assume kv: "kv \<in> set ?kept"
      obtain k v where eq: "kv = (k, v)" by (cases kv)
      from kv eq have mem: "(k, v) \<in> set ?kept" by simp
      then have "(k, v) \<in> set kvs" by simp
      then have "\<not> has_nan v" by (rule nn)
      with mem have "deep_clean (deep_clean v) = deep_clean v"
        by (rule 1(1) [OF _ refl])
      with eq show "(case kv of (k, v) \<Rightarrow> (k, deep_clean (deep_clean v)))
            = (case kv of (k, v) \<Rightarrow> (k, deep_clean v))" by simp
    qed
    finally show ?thesis .
  qed
  ultimately show ?case by simp
next
  case (2 xs)
  let ?kept = "filter (\<lambda>item. item \<noteq> PNone) xs"
  let ?once = "map deep_clean ?kept"
  have nn: "\<not> has_nan v" if "v \<in> set xs" for v
    using 2(2) that by (auto simp: list_ex_iff)
  have "\<forall>v \<in> set ?once. v \<noteq> PNone"
    using nn deep_clean_not_none by fastforce
  then have "filter (\<lambda>item. item \<noteq> PNone) ?once = ?once"
    by (intro filter_True) blast
  moreover have "map deep_clean ?once = ?once"
  proof -
    have "map deep_clean ?once = map (\<lambda>v. deep_clean (deep_clean v)) ?kept"
      by (simp add: comp_def)
    also have "\<dots> = ?once"
    proof (rule map_cong [OF refl])
      fix v assume mem: "v \<in> set ?kept"
      then have "v \<in> set xs" by simp
      then have "\<not> has_nan v" by (rule nn)
      with mem show "deep_clean (deep_clean v) = deep_clean v" by (rule 2(1))
    qed
    finally show ?thesis .
  qed
  ultimately show ?case by simp
qed auto

lemma sanitize_returns_dict: "\<exists>d'. sanitize d = PDict d'"
  by (simp add: sanitize_eq)

lemma sanitize_idem:
  assumes "sanitize d = PDict d'"
  shows "sanitize d' = PDict d'"
proof -
  let ?c = "clean_nan (PDict d)"
  have nn: "\<not> has_nan (PDict d')"
    using assms has_nan_clean_nan [of "PDict d"] has_nan_deep_clean [of ?c]
    unfolding sanitize_eq by (metis (full_types))
  then have fixed: "clean_nan (PDict d') = PDict d'" by (rule clean_nan_fixed)
  show ?thesis
  proof (cases "json_dumps_ok (PDict d')")
    case True
    with fixed show ?thesis using sanitize_eq [of d'] by presburger
  next
    case False
    then have "\<not> json_dumps_ok ?c"
      using assms unfolding sanitize_eq by (metis (full_types))
    then have "PDict d' = deep_clean ?c"
      using assms unfolding sanitize_eq by presburger
    then have "deep_clean (PDict d') = PDict d'"
      using deep_clean_twice [OF has_nan_clean_nan [of "PDict d"]] by presburger
    with False fixed show ?thesis using sanitize_eq [of d'] by presburger
  qed
qed

text \<open>
  C3. \<open>clean_nan\<close> applied to its own result returns that result. The whole sanitizing block
  is idempotent as well: given the dict it returned, it returns the same dict.
\<close>

theorem sanitizer_idempotent:
  "clean_nan (clean_nan t) = clean_nan t \<and> (sanitize d = PDict d' \<longrightarrow> sanitize d' = PDict d')"
  using clean_nan_idem [of t] sanitize_idem [of d d'] by blast

theorem sanitizer_idempotent_witness:
  "clean_nan (clean_nan (PList [PFloat NaN, PDict [(KStr ''van'', PFloat PosInf)], PInt 7]))
     = clean_nan (PList [PFloat NaN, PDict [(KStr ''van'', PFloat PosInf)], PInt 7])
   \<and> sanitize [(KStr ''tir'', PFloat NaN), (KStr ''n'', POther ''Decimal(1)'')]
     = PDict [(KStr ''n'', PStr ''Decimal(1)'')]
   \<and> sanitize [(KStr ''n'', PStr ''Decimal(1)'')]
     = PDict [(KStr ''n'', PStr ''Decimal(1)'')]"
proof -
  have s: "sanitize [(KStr ''tir'', PFloat NaN), (KStr ''n'', POther ''Decimal(1)'')]
           = PDict [(KStr ''n'', PStr ''Decimal(1)'')]"
    by (simp add: sanitize_def)
  show ?thesis
    using s sanitizer_idempotent
      [of "PList [PFloat NaN, PDict [(KStr ''van'', PFloat PosInf)], PInt 7]"
          "[(KStr ''tir'', PFloat NaN), (KStr ''n'', POther ''Decimal(1)'')]"
          "[(KStr ''n'', PStr ''Decimal(1)'')]"]
    by simp
qed

section \<open>The cleaners and the recursion limit\<close>

lemma max_list_le: "max_list xs \<le> n \<longleftrightarrow> (\<forall>x \<in> set xs. x \<le> n)"
  by (induction xs) auto

lemma depth_pos: "0 < depth t"
  by (cases t) simp_all

lemma collect_all_returned:
  "(\<And>x. x \<in> set xs \<Longrightarrow> f x = Inr (g x)) \<Longrightarrow> collect (map f xs) = Inr (map g xs)"
  by (induction xs) auto

lemma collect_first_error:
  "(\<And>x. x \<in> set xs \<Longrightarrow> f x = Inr (g x) \<or> f x = Inl e) \<Longrightarrow> \<exists>x \<in> set xs. f x = Inl e \<Longrightarrow>
   collect (map f xs) = Inl e"
proof (induction xs)
  case Nil
  then show ?case by simp
next
  case (Cons x xs)
  show ?case
  proof (cases "f x = Inl e")
    case True
    then show ?thesis by simp
  next
    case False
    with Cons.prems(1) [of x] have fx: "f x = Inr (g x)" by simp
    from False Cons.prems(2) have "\<exists>y \<in> set xs. f y = Inl e" by auto
    with Cons.IH Cons.prems(1) have "collect (map f xs) = Inl e" by simp
    with fx show ?thesis by simp
  qed
qed

lemma clean_nan_raising_exact:
  "clean_nan_raising n t = (if depth t \<le> n then Inr (clean_nan t) else Inl RecursionError)"
proof (induction n arbitrary: t)
  case 0
  show ?case using depth_pos [of t] by simp
next
  case (Suc n)
  show ?case
  proof (cases t)
    case (PDict kvs)
    let ?f = "\<lambda>(k, v). case clean_nan_raising n v of Inl e \<Rightarrow> Inl e | Inr v' \<Rightarrow> Inr (k, v')"
    show ?thesis
    proof (cases "\<forall>(k, v) \<in> set kvs. depth v \<le> n")
      case True
      have "collect (map ?f kvs) = Inr (map (\<lambda>(k, v). (k, clean_nan v)) kvs)"
        by (rule collect_all_returned) (use True Suc in auto)
      moreover have "depth t \<le> Suc n"
        using True PDict by (auto simp: max_list_le)
      ultimately show ?thesis using PDict by simp
    next
      case False
      have "collect (map ?f kvs) = Inl RecursionError"
      proof (rule collect_first_error [where g = "\<lambda>(k, v). (k, clean_nan v)"])
        fix x assume "x \<in> set kvs"
        show "?f x = Inr (case x of (k, v) \<Rightarrow> (k, clean_nan v)) \<or> ?f x = Inl RecursionError"
          by (cases x) (simp add: Suc)
      next
        from False obtain k v where "(k, v) \<in> set kvs" "\<not> depth v \<le> n" by auto
        then have "(k, v) \<in> set kvs \<and> ?f (k, v) = Inl RecursionError" by (simp add: Suc)
        then show "\<exists>x \<in> set kvs. ?f x = Inl RecursionError" by blast
      qed
      moreover have "\<not> depth t \<le> Suc n"
        using False PDict by (fastforce simp: max_list_le)
      ultimately show ?thesis using PDict by simp
    qed
  next
    case (PList xs)
    show ?thesis
    proof (cases "\<forall>x \<in> set xs. depth x \<le> n")
      case True
      have "collect (map (clean_nan_raising n) xs) = Inr (map clean_nan xs)"
        by (rule collect_all_returned) (use True Suc in auto)
      moreover have "depth t \<le> Suc n"
        using True PList by (auto simp: max_list_le)
      ultimately show ?thesis using PList by simp
    next
      case False
      have "collect (map (clean_nan_raising n) xs) = Inl RecursionError"
      proof (rule collect_first_error [where g = clean_nan])
        fix x assume "x \<in> set xs"
        show "clean_nan_raising n x = Inr (clean_nan x) \<or> clean_nan_raising n x = Inl RecursionError"
          by (simp add: Suc)
      next
        from False obtain x where "x \<in> set xs" "\<not> depth x \<le> n" by auto
        then have "x \<in> set xs \<and> clean_nan_raising n x = Inl RecursionError" by (simp add: Suc)
        then show "\<exists>x \<in> set xs. clean_nan_raising n x = Inl RecursionError" by blast
      qed
      moreover have "\<not> depth t \<le> Suc n"
        using False PList by (auto simp: max_list_le)
      ultimately show ?thesis using PList by simp
    qed
  qed simp_all
qed

lemma deep_clean_raising_returns:
  "depth t \<le> n \<Longrightarrow> recognized t \<Longrightarrow> deep_clean_raising n t = Inr (deep_clean t)"
proof (induction n arbitrary: t)
  case 0
  then show ?case using depth_pos [of t] by simp
next
  case (Suc n)
  show ?case
  proof (cases t)
    case (PDict kvs)
    let ?f = "\<lambda>(k, v). case deep_clean_raising n v of Inl e \<Rightarrow> Inl e | Inr v' \<Rightarrow> Inr (k, v')"
    let ?kept = "filter (\<lambda>(k, v). v \<noteq> PNone) kvs"
    have "collect (map ?f ?kept) = Inr (map (\<lambda>(k, v). (k, deep_clean v)) ?kept)"
    proof (rule collect_all_returned)
      fix x assume x: "x \<in> set ?kept"
      obtain k v where eq: "x = (k, v)" by (cases x)
      with x have mem: "(k, v) \<in> set kvs" by simp
      with Suc.prems PDict have "depth v \<le> n" "recognized v"
        by (auto simp: max_list_le list_all_iff)
      then have "deep_clean_raising n v = Inr (deep_clean v)" by (rule Suc.IH)
      with eq show "?f x = Inr (case x of (k, v) \<Rightarrow> (k, deep_clean v))" by simp
    qed
    then show ?thesis using PDict by simp
  next
    case (PList xs)
    let ?kept = "filter (\<lambda>item. item \<noteq> PNone) xs"
    have "collect (map (deep_clean_raising n) ?kept) = Inr (map deep_clean ?kept)"
    proof (rule collect_all_returned)
      fix x assume "x \<in> set ?kept"
      then have "x \<in> set xs" by simp
      with Suc.prems PList have "depth x \<le> n" "recognized x"
        by (auto simp: max_list_le list_all_iff)
      then show "deep_clean_raising n x = Inr (deep_clean x)" by (rule Suc.IH)
    qed
    then show ?thesis using PList by simp
  next
    case (PTuple xs s)
    with Suc.prems show ?thesis by simp
  next
    case (POther s)
    with Suc.prems show ?thesis by simp
  qed simp_all
qed

lemma depth_nested: "depth (nested n) = Suc n"
  by (induction n) simp_all

lemma recognized_nested: "recognized (nested n)"
  by (induction n) simp_all

lemma nested_not_none: "nested n \<noteq> PNone"
  by (cases n) simp_all

lemma clean_nan_raising_nested: "clean_nan_raising n (nested n) = Inl RecursionError"
  by (simp add: clean_nan_raising_exact depth_nested)

lemma deep_clean_raising_nested: "deep_clean_raising n (nested n) = Inl RecursionError"
  by (induction n) (simp_all add: nested_not_none)

text \<open>
  C4. With \<open>n\<close> nested calls allowed, \<open>clean_nan\<close> returns its value on exactly the trees it
  enters no deeper than \<open>n\<close>, and raises \<open>RecursionError\<close> on every other tree; nothing else
  is ever raised. \<open>deep_clean\<close> returns its value on every tree of mappings, sequences and
  scalars no deeper than \<open>n\<close>. Within that depth every \<open>items\<close>, iteration, \<open>math.isnan\<close>,
  \<open>math.isinf\<close> and \<open>str\<close> is reached only behind the \<open>isinstance\<close> test that makes it safe.
\<close>

theorem cleaners_return_within_recursion_limit:
  "clean_nan_raising n t = (if depth t \<le> n then Inr (clean_nan t) else Inl RecursionError)
   \<and> (depth t \<le> n \<and> recognized t \<longrightarrow> deep_clean_raising n t = Inr (deep_clean t))"
  using clean_nan_raising_exact [of n t] deep_clean_raising_returns [of t n] by blast

theorem cleaners_return_within_recursion_limit_witness:
  "depth (PDict [(KStr ''a'', PList [PFloat NaN, PNone]), (KStr ''b'', PStr ''x'')]) \<le> 3
   \<and> recognized (PDict [(KStr ''a'', PList [PFloat NaN, PNone]), (KStr ''b'', PStr ''x'')])
   \<and> clean_nan_raising 3 (PDict [(KStr ''a'', PList [PFloat NaN, PNone]), (KStr ''b'', PStr ''x'')])
     = Inr (PDict [(KStr ''a'', PList [PNone, PNone]), (KStr ''b'', PStr ''x'')])
   \<and> deep_clean_raising 3 (PDict [(KStr ''a'', PList [PFloat NaN, PNone]), (KStr ''b'', PStr ''x'')])
     = Inr (PDict [(KStr ''a'', PList [PNone]), (KStr ''b'', PStr ''x'')])"
  using cleaners_return_within_recursion_limit
    [of 3 "PDict [(KStr ''a'', PList [PFloat NaN, PNone]), (KStr ''b'', PStr ''x'')]"]
  by simp

text \<open>
  Beyond the limit both functions raise: on the integer 0 inside 1000 lists, with the 1000
  nested calls that the default limit allows at most.
\<close>

theorem cleaners_raise_on_deep_tree_counterexample:
  "recognized (nested 1000)
   \<and> clean_nan_raising 1000 (nested 1000) = Inl RecursionError
   \<and> deep_clean_raising 1000 (nested 1000) = Inl RecursionError"
  using recognized_nested [of 1000] clean_nan_raising_nested [of 1000]
    deep_clean_raising_nested [of 1000]
  by blast

section \<open>The deep-clean fallback\<close>

lemma deep_clean_is_spec: "deep_clean t = deep_clean_spec t"
proof (induction t rule: deep_clean.induct)
  case (1 kvs)
  have "map (\<lambda>(k, v). (k, deep_clean v)) (filter (\<lambda>(k, v). v \<noteq> PNone) kvs)
        = map (\<lambda>(k, v). (k, deep_clean_spec v)) (filter (\<lambda>(k, v). v \<noteq> PNone) kvs)"
    by (rule map_cong [OF refl]) (use 1 in fastforce)
  also have "\<dots> = concat (map (\<lambda>(k, v). if v \<noteq> PNone then [(k, deep_clean_spec v)] else []) kvs)"
    by (induction kvs) auto
  finally show ?case by simp
next
  case (2 xs)
  have "map deep_clean (filter (\<lambda>item. item \<noteq> PNone) xs)
        = map deep_clean_spec (filter (\<lambda>item. item \<noteq> PNone) xs)"
    by (rule map_cong [OF refl]) (use 2 in auto)
  also have "\<dots> = concat (map (\<lambda>x. if x \<noteq> PNone then [deep_clean_spec x] else []) xs)"
    by (induction xs) auto
  finally show ?case by simp
next
  case (6 f)
  show ?case by (rule deep_clean_float)
qed simp_all

lemma recognized_deep_clean: "recognized (deep_clean t)"
  by (induction t rule: deep_clean.induct) (auto simp: list_all_iff)

text \<open>
  C5. \<open>deep_clean\<close> is the deep-clean fallback of the specification on every tree: the two
  functions are equal. Its result holds no non-finite float among dict values and list
  elements, no tuple and no object of an unrecognized type. It is JSON-encodable when every
  int of the tree has at most 4300 digits and every key is one the encoder accepts and no
  non-finite float.
\<close>

theorem deep_clean_refines_spec:
  "deep_clean t = deep_clean_spec t
   \<and> \<not> has_nan (deep_clean t)
   \<and> recognized (deep_clean t)
   \<and> (ints_and_keys_fit t \<longrightarrow> is_json_encodable (deep_clean t))"
  using deep_clean_is_spec [of t] has_nan_deep_clean [of t] recognized_deep_clean [of t]
    deep_clean_encodable [of t]
  by blast

theorem deep_clean_refines_spec_witness:
  "ints_and_keys_fit (PDict [(KStr ''a'', PNone), (KStr ''b'', PList [PNone, PInt 1, PFloat PosInf]),
                       (KStr ''c'', POther ''2024-01-01''), (KStr ''d'', PFloat (Finite 3 0))])
   \<and> deep_clean (PDict [(KStr ''a'', PNone), (KStr ''b'', PList [PNone, PInt 1, PFloat PosInf]),
                       (KStr ''c'', POther ''2024-01-01''), (KStr ''d'', PFloat (Finite 3 0))])
     = PDict [(KStr ''b'', PList [PInt 1, PNone]), (KStr ''c'', PStr ''2024-01-01''),
              (KStr ''d'', PFloat (Finite 3 0))]
   \<and> deep_clean_spec (PDict [(KStr ''a'', PNone), (KStr ''b'', PList [PNone, PInt 1, PFloat PosInf]),
                       (KStr ''c'', POther ''2024-01-01''), (KStr ''d'', PFloat (Finite 3 0))])
     = PDict [(KStr ''b'', PList [PInt 1, PNone]), (KStr ''c'', PStr ''2024-01-01''),
              (KStr ''d'', PFloat (Finite 3 0))]
   \<and> is_json_encodable (PDict [(KStr ''b'', PList [PInt 1, PNone]), (KStr ''c'', PStr ''2024-01-01''),
              (KStr ''d'', PFloat (Finite 3 0))])"
  using deep_clean_refines_spec
    [of "PDict [(KStr ''a'', PNone), (KStr ''b'', PList [PNone, PInt 1, PFloat PosInf]),
                (KStr ''c'', POther ''2024-01-01''), (KStr ''d'', PFloat (Finite 3 0))]"]
  by (simp add: small_int_digits_ok)

text \<open>
  \<open>deep_clean\<close> returns an int as it is and leaves every key: an int of 4301 digits, or a
  key that is a tuple, stays in its result, and the encoder refuses that result.
\<close>

theorem deep_clean_not_encodable_counterexample:
  "deep_clean (PDict [(KStr ''van'', PInt int_limit)]) = PDict [(KStr ''van'', PInt int_limit)]
   \<and> \<not> json_dumps_ok (deep_clean (PDict [(KStr ''van'', PInt int_limit)]))
   \<and> \<not> is_json_encodable (deep_clean (PDict [(KStr ''van'', PInt int_limit)]))
   \<and> \<not> is_json_encodable (deep_clean (PDict [(KOther ''(2024, 1)'', PInt 1)]))"
  by (simp add: is_json_encodable_def not_int_digits_ok)

section \<open>Properties of the payload normalizer\<close>

lemma clean_payload_no_null:
  "(k, v) \<in> set (clean_payload p) \<Longrightarrow> v \<noteq> PNone \<and> v \<noteq> PStr ''undefined''"
  by (auto simp: clean_payload_def)

lemma clean_payload_set:
  "(k, v) \<in> set (clean_payload p) \<longleftrightarrow> (k, v) \<in> set p \<and> v \<noteq> PNone \<and> v \<noteq> PStr ''undefined''"
  by (auto simp: clean_payload_def)

lemma clean_payload_distinct: "distinct (map fst p) \<Longrightarrow> distinct (map fst (clean_payload p))"
  by (simp add: clean_payload_def distinct_map_filter)

lemma map_of_filter_snd:
  "distinct (map fst p) \<Longrightarrow>
   map_of (filter (\<lambda>(k, v). Q v) p) k =
     (case map_of p k of None \<Rightarrow> None | Some v \<Rightarrow> if Q v then Some v else None)"
proof (induction p)
  case Nil
  show ?case by simp
next
  case (Cons kv p)
  obtain k' v' where kv: "kv = (k', v')" by (cases kv)
  from Cons.prems kv have notin: "k' \<notin> fst ` set p" and d: "distinct (map fst p)" by auto
  have none: "map_of (filter (\<lambda>(k, v). Q v) p) k' = None"
    using notin by (auto simp: map_of_eq_None_iff image_iff)
  show ?case using Cons.IH [OF d] kv none by (auto split: option.splits)
qed

lemma clean_payload_lookup:
  "distinct (map fst p) \<Longrightarrow>
   map_of (clean_payload p) k =
     (case map_of p k of
        None \<Rightarrow> None
      | Some v \<Rightarrow> if v \<noteq> PNone \<and> v \<noteq> PStr ''undefined'' then Some v else None)"
  unfolding clean_payload_def by (rule map_of_filter_snd)

text \<open>
  C6. In \<open>clean_payload\<close> no key is mapped to null or to the string "undefined", and an entry
  is in it exactly when it is an entry of the payload with another value, that value being
  the one the payload had. Read as a dict (distinct keys), a lookup in \<open>clean_payload\<close>
  finds what the lookup in the payload finds, unless that is null or "undefined". The
  comprehension never raises: over the operations that can raise it returns this value.
\<close>

theorem clean_payload_drops_null_and_undefined:
  "(\<forall>(k, v) \<in> set (clean_payload p). v \<noteq> PNone \<and> v \<noteq> PStr ''undefined'')
   \<and> (\<forall>k v. (k, v) \<in> set (clean_payload p)
          \<longleftrightarrow> (k, v) \<in> set p \<and> v \<noteq> PNone \<and> v \<noteq> PStr ''undefined'')
   \<and> (distinct (map fst p) \<longrightarrow>
        distinct (map fst (clean_payload p))
        \<and> (\<forall>k. map_of (clean_payload p) k =
              (case map_of p k of
                 None \<Rightarrow> None
               | Some v \<Rightarrow> if v \<noteq> PNone \<and> v \<noteq> PStr ''undefined'' then Some v else None)))
   \<and> clean_payload_raising p = Inr (clean_payload p)"
  using clean_payload_set [of _ _ p] clean_payload_distinct [of p] clean_payload_lookup [of p]
  by (auto simp: clean_payload_raising_def clean_payload_def)

theorem clean_payload_drops_null_and_undefined_witness:
  "distinct (map fst [(KStr ''kWp'', PInt 100), (KStr ''modo'', PStr ''undefined''), (KStr ''notes'', PNone)])
   \<and> clean_payload [(KStr ''kWp'', PInt 100), (KStr ''modo'', PStr ''undefined''), (KStr ''notes'', PNone)]
       = [(KStr ''kWp'', PInt 100)]
   \<and> map_of (clean_payload [(KStr ''kWp'', PInt 100), (KStr ''modo'', PStr ''undefined''), (KStr ''notes'', PNone)])
        (KStr ''kWp'') = Some (PInt 100)
   \<and> map_of (clean_payload [(KStr ''kWp'', PInt 100), (KStr ''modo'', PStr ''undefined''), (KStr ''notes'', PNone)])
        (KStr ''notes'') = None
   \<and> clean_payload_raising [(KStr ''kWp'', PInt 100), (KStr ''modo'', PStr ''undefined''), (KStr ''notes'', PNone)]
       = Inr [(KStr ''kWp'', PInt 100)]"
  using clean_payload_drops_null_and_undefined
    [of "[(KStr ''kWp'', PInt 100), (KStr ''modo'', PStr ''undefined''), (KStr ''notes'', PNone)]"]
  by (simp add: clean_payload_def)


text \<open>
  C9. The comprehension looks at the top level only: an entry whose value is a dict or a
  list stays in \<open>clean_payload\<close> with that very value, whatever nulls or "undefined" strings
  it holds inside, and an entry that is removed has null or "undefined" as its own value.
\<close>

theorem clean_payload_is_shallow:
  "((k, v) \<in> set p \<and> (isinstance_dict v \<or> isinstance_list v) \<longrightarrow> (k, v) \<in> set (clean_payload p))
   \<and> ((k, v) \<in> set p \<and> (k, v) \<notin> set (clean_payload p) \<longrightarrow> v = PNone \<or> v = PStr ''undefined'')"
  by (cases v) (auto simp: clean_payload_def)

theorem clean_payload_is_shallow_witness:
  "(KStr ''opts'', PDict [(KStr ''a'', PNone), (KStr ''b'', PStr ''undefined'')])
     \<in> set [(KStr ''opts'', PDict [(KStr ''a'', PNone), (KStr ''b'', PStr ''undefined'')]),
            (KStr ''xs'', PList [PNone, PStr ''undefined'']), (KStr ''notes'', PNone)]
   \<and> isinstance_dict (PDict [(KStr ''a'', PNone), (KStr ''b'', PStr ''undefined'')])
   \<and> (KStr ''opts'', PDict [(KStr ''a'', PNone), (KStr ''b'', PStr ''undefined'')])
     \<in> set (clean_payload [(KStr ''opts'', PDict [(KStr ''a'', PNone), (KStr ''b'', PStr ''undefined'')]),
            (KStr ''xs'', PList [PNone, PStr ''undefined'']), (KStr ''notes'', PNone)])
   \<and> clean_payload [(KStr ''opts'', PDict [(KStr ''a'', PNone), (KStr ''b'', PStr ''undefined'')]),
            (KStr ''xs'', PList [PNone, PStr ''undefined'']), (KStr ''notes'', PNone)]
     = [(KStr ''opts'', PDict [(KStr ''a'', PNone), (KStr ''b'', PStr ''undefined'')]),
        (KStr ''xs'', PList [PNone, PStr ''undefined''])]"
  using clean_payload_is_shallow
    [of "KStr ''opts''" "PDict [(KStr ''a'', PNone), (KStr ''b'', PStr ''undefined'')]"
        "[(KStr ''opts'', PDict [(KStr ''a'', PNone), (KStr ''b'', PStr ''undefined'')]),
          (KStr ''xs'', PList [PNone, PStr ''undefined'']), (KStr ''notes'', PNone)]"]
  by (simp add: clean_payload_def)

section \<open>Properties of the request handler\<close>

lemma try_block_raises:
  "fst (try_block env p) = Inl e \<longleftrightarrow>
     FinancialInputs env (clean_payload p) = Inl e
     \<or> (\<exists>inputs. FinancialInputs env (clean_payload p) = Inr inputs
          \<and> (log_inputs env inputs = Inl e
              \<or> log_inputs env inputs = Inr ()
                \<and> (engine_calculate env inputs = Inl e
                    \<or> (\<exists>result. engine_calculate env inputs = Inr result
                         \<and> (log_result env result = Inl e
                             \<or> log_result env result = Inr ()
                               \<and> (\<exists>dump_err. model_dump_json env result = Inl dump_err)
                               \<and> model_dump env result = Inl e)))))"
  by (auto simp: try_block_def dumped_def split: sum.splits)

lemma internal_error_body_encodable:
  "is_json_encodable (PDict [(KStr ''error'', PStr ''InternalError''), (KStr ''message'', PStr msg),
                             (KStr ''traceback'', PStr tb)])"
  by (simp add: is_json_encodable_def)

lemma validation_failure_stops_before_engine:
  "FinancialInputs env (clean_payload p) = Inl e \<Longrightarrow> snd (calculate env p) = []"
  by (simp add: calculate_def try_block_def split: sum.splits)

lemma validation_failure_encodable_gives_422:
  assumes "FinancialInputs env (clean_payload p) = Inl (ValidationError msg errs tb)"
    and "is_json_encodable (PDict [(KStr ''error'', PStr ''ValidationError''),
                                   (KStr ''message'', PStr msg), (KStr ''details'', PList errs)])"
  shows "calculate env p =
           (Respond \<lparr>status_code = 422,
                     content = PDict [(KStr ''error'', PStr ''ValidationError''),
                                      (KStr ''message'', PStr msg), (KStr ''details'', PList errs)],
                     headers = [(''Access-Control-Allow-Origin'', ''*'')]\<rparr>,
            [])"
  using assms by (simp add: calculate_def try_block_def JSONResponse_init_def)

lemma validation_failure_unencodable_raises:
  assumes "FinancialInputs env (clean_payload p) = Inl (ValidationError msg errs tb)"
    and "\<not> is_json_encodable (PDict [(KStr ''error'', PStr ''ValidationError''),
                                     (KStr ''message'', PStr msg), (KStr ''details'', PList errs)])"
  shows "calculate env p =
           (Raise (json_error env (PDict [(KStr ''error'', PStr ''ValidationError''),
                                          (KStr ''message'', PStr msg),
                                          (KStr ''details'', PList errs)])),
            [])"
  using assms by (simp add: calculate_def try_block_def JSONResponse_init_def)

text \<open>
  C7. The request body \<open>{"modo": "venta_total", "capex": NaN}\<close> lacks the required \<open>kWp\<close>.
  The entry pydantic reports for the missing field holds the input it was given, and with
  it the NaN. The \<open>except ValidationError\<close> clause builds the 422 response from these
  entries, the constructor of the response refuses the NaN, and the exception leaves
  \<open>calculate\<close>: the request is answered by \<open>global_exception_handler\<close> with status 500, not
  with 422. \<open>_engine.calculate\<close> is not called.
\<close>

theorem validation_failure_with_nan_is_answered_500:
  "calculate
     \<lparr>FinancialInputs =
        (\<lambda>payload. Inl (ValidationError ''1 validation error for FinancialInputs''
                         [PDict [(KStr ''type'', PStr ''missing''),
                                 (KStr ''loc'', PTuple [PStr ''kWp''] (''('' @ [CHR 0x27] @ ''kWp'' @ [CHR 0x27] @ '',)'')),
                                 (KStr ''msg'', PStr ''Field required''),
                                 (KStr ''input'', PDict payload)]]
                         ''Traceback'')),
      log_inputs = (\<lambda>inputs. Inr ()), engine_calculate = Inr,
      log_result = (\<lambda>result. Inr ()), model_dump_json = Inr, model_dump = Inr,
      json_error = (\<lambda>body. Exception ''ValueError''
                               ''Out of range float values are not JSON compliant''
                               ''Traceback'')\<rparr>
     [(KStr ''modo'', PStr ''venta_total''), (KStr ''capex'', PFloat NaN)]
   = (Raise (Exception ''ValueError'' ''Out of range float values are not JSON compliant''
               ''Traceback''),
      [])
   \<and> global_exception_handler
         (Exception ''ValueError'' ''Out of range float values are not JSON compliant''
            ''Traceback'')
     = \<lparr>status_code = 500,
        content = PDict [(KStr ''error'', PStr ''InternalError''),
                         (KStr ''message'',
                            PStr ''Out of range float values are not JSON compliant''),
                         (KStr ''type'', PStr ''ValueError'')],
        headers = [(''Access-Control-Allow-Origin'', ''*'')]\<rparr>"
  by (simp add: calculate_def try_block_def clean_payload_def JSONResponse_init_def
      is_json_encodable_def global_exception_handler_def)

text \<open>
  C8. An exception of any class other than \<open>ValidationError\<close> that leaves the \<open>try\<close> block of
  \<open>calculate\<close> is answered with status 500 and the body \<open>{error: InternalError, message,
  traceback}\<close>; the global handler answers with \<open>{error: InternalError, message, type}\<close>; and
  every \<open>JSONResponse\<close> that \<open>calculate\<close> builds has status 422 or 500 and carries the header
  \<open>Access-Control-Allow-Origin\<close>.
\<close>

theorem internal_error_gives_500:
  "(fst (try_block env p) = Inl (Exception tn msg tb) \<longrightarrow>
      fst (calculate env p) =
        Respond \<lparr>status_code = 500,
                  content = PDict [(KStr ''error'', PStr ''InternalError''), (KStr ''message'', PStr msg),
                                   (KStr ''traceback'', PStr tb)],
                  headers = [(''Access-Control-Allow-Origin'', ''*'')]\<rparr>)
   \<and> global_exception_handler exc =
        \<lparr>status_code = 500,
         content = PDict [(KStr ''error'', PStr ''InternalError''), (KStr ''message'', PStr (str_exc exc)),
                          (KStr ''type'', PStr (type_name exc))],
         headers = [(''Access-Control-Allow-Origin'', ''*'')]\<rparr>
   \<and> (\<forall>r. fst (calculate env p) = Respond r \<longrightarrow>
          (status_code r = 422 \<or> status_code r = 500)
          \<and> map_of (headers r) ''Access-Control-Allow-Origin'' = Some ''*'')"
proof (intro conjI allI impI)
  assume "fst (try_block env p) = Inl (Exception tn msg tb)"
  then show "fst (calculate env p) =
        Respond \<lparr>status_code = 500,
                  content = PDict [(KStr ''error'', PStr ''InternalError''), (KStr ''message'', PStr msg),
                                   (KStr ''traceback'', PStr tb)],
                  headers = [(''Access-Control-Allow-Origin'', ''*'')]\<rparr>"
    using internal_error_body_encodable [of msg tb]
    by (cases "try_block env p") (simp add: calculate_def JSONResponse_init_def)
next
  show "global_exception_handler exc =
        \<lparr>status_code = 500,
         content = PDict [(KStr ''error'', PStr ''InternalError''), (KStr ''message'', PStr (str_exc exc)),
                          (KStr ''type'', PStr (type_name exc))],
         headers = [(''Access-Control-Allow-Origin'', ''*'')]\<rparr>"
    by (simp add: global_exception_handler_def)
next
  fix r assume r: "fst (calculate env p) = Respond r"
  obtain res calls where tb: "try_block env p = (res, calls)" by (cases "try_block env p")
  from r tb obtain e where e: "res = Inl e" and re: "except_clauses env e = Inr r"
    by (cases res) (auto simp: calculate_def split: sum.splits)
  show "status_code r = 422 \<or> status_code r = 500"
    using re by (cases e) (auto simp: JSONResponse_init_def split: if_splits)
  show "map_of (headers r) ''Access-Control-Allow-Origin'' = Some ''*''"
    using re by (cases e) (auto simp: JSONResponse_init_def split: if_splits)
qed

theorem internal_error_gives_500_witness:
  "fst (try_block
         \<lparr>FinancialInputs = FinancialInputs_spec, log_inputs = (\<lambda>inputs. Inr ()),
          engine_calculate = (\<lambda>inputs. Inl (Exception ''ZeroDivisionError'' ''division by zero'' ''Traceback'')),
          log_result = (\<lambda>result. Inr ()), model_dump_json = Inr, model_dump = Inr,
          json_error = (\<lambda>body. Exception ''ValueError'' ''not JSON compliant'' ''Traceback'')\<rparr>
         [(KStr ''kWp'', PInt 100), (KStr ''modo'', PStr ''venta_total''), (KStr ''capex'', PInt 50000), (KStr ''notes'', PNone)])
     = Inl (Exception ''ZeroDivisionError'' ''division by zero'' ''Traceback'')
   \<and> calculate
         \<lparr>FinancialInputs = FinancialInputs_spec, log_inputs = (\<lambda>inputs. Inr ()),
          engine_calculate = (\<lambda>inputs. Inl (Exception ''ZeroDivisionError'' ''division by zero'' ''Traceback'')),
          log_result = (\<lambda>result. Inr ()), model_dump_json = Inr, model_dump = Inr,
          json_error = (\<lambda>body. Exception ''ValueError'' ''not JSON compliant'' ''Traceback'')\<rparr>
         [(KStr ''kWp'', PInt 100), (KStr ''modo'', PStr ''venta_total''), (KStr ''capex'', PInt 50000), (KStr ''notes'', PNone)]
     = (Respond \<lparr>status_code = 500,
                  content = PDict [(KStr ''error'', PStr ''InternalError''), (KStr ''message'', PStr ''division by zero''),
                                   (KStr ''traceback'', PStr ''Traceback'')],
                  headers = [(''Access-Control-Allow-Origin'', ''*'')]\<rparr>,
        [[(KStr ''kWp'', PInt 100), (KStr ''modo'', PStr ''venta_total''), (KStr ''capex'', PInt 50000)]])"
proof -
  let ?env = "\<lparr>FinancialInputs = FinancialInputs_spec, log_inputs = (\<lambda>inputs. Inr ()),
          engine_calculate = (\<lambda>inputs. Inl (Exception ''ZeroDivisionError'' ''division by zero'' ''Traceback'')),
          log_result = (\<lambda>result. Inr ()), model_dump_json = Inr, model_dump = Inr,
          json_error = (\<lambda>body. Exception ''ValueError'' ''not JSON compliant'' ''Traceback'')\<rparr>
     :: ((pykey \<times> pyval) list, (pykey \<times> pyval) list) collaborators"
  let ?p = "[(KStr ''kWp'', PInt 100), (KStr ''modo'', PStr ''venta_total''), (KStr ''capex'', PInt 50000), (KStr ''notes'', PNone)]"
  have t: "try_block ?env ?p
           = (Inl (Exception ''ZeroDivisionError'' ''division by zero'' ''Traceback''),
              [[(KStr ''kWp'', PInt 100), (KStr ''modo'', PStr ''venta_total''), (KStr ''capex'', PInt 50000)]])"
    by (simp add: try_block_def clean_payload_def FinancialInputs_spec_def required_fields_def)
  have c: "snd (calculate ?env ?p)
           = [[(KStr ''kWp'', PInt 100), (KStr ''modo'', PStr ''venta_total''), (KStr ''capex'', PInt 50000)]]"
    by (simp add: calculate_def t split: sum.splits)
  have "fst (calculate ?env ?p)
        = Respond \<lparr>status_code = 500,
                  content = PDict [(KStr ''error'', PStr ''InternalError''), (KStr ''message'', PStr ''division by zero''),
                                   (KStr ''traceback'', PStr ''Traceback'')],
                  headers = [(''Access-Control-Allow-Origin'', ''*'')]\<rparr>"
    using t internal_error_gives_500
      [of ?env ?p "''ZeroDivisionError''" "''division by zero''" "''Traceback''"]
    by simp
  with c t show ?thesis by (simp add: prod_eq_iff)
qed

section \<open>The fallback is not idempotent\<close>

text \<open>
  C10. \<open>deep_clean\<close> tests an entry for null before it cleans the value: an entry of a
  mapping whose value is a non-finite float stays, mapped to null. So the result of
  \<open>deep_clean\<close> can hold nulls, and a second application drops them: \<open>deep_clean\<close> is not
  idempotent.
\<close>

theorem deep_clean_keeps_null_of_non_finite:
  "((k, PFloat f) \<in> set m \<and> (isnan f \<or> isinf f) \<longrightarrow>
      (\<exists>m'. deep_clean (PDict m) = PDict m' \<and> (k, PNone) \<in> set m'))
   \<and> (isnan f \<or> isinf f \<longrightarrow>
        deep_clean (PDict [(k, PFloat f)]) = PDict [(k, PNone)]
        \<and> deep_clean (deep_clean (PDict [(k, PFloat f)])) = PDict []
        \<and> deep_clean (deep_clean (PDict [(k, PFloat f)])) \<noteq> deep_clean (PDict [(k, PFloat f)]))
   \<and> (\<exists>x. deep_clean (deep_clean x) \<noteq> deep_clean x)"
proof (intro conjI impI)
  assume a: "(k, PFloat f) \<in> set m \<and> (isnan f \<or> isinf f)"
  then have "(k, PNone) \<in> set (map (\<lambda>(k, v). (k, deep_clean v)) (filter (\<lambda>(k, v). v \<noteq> PNone) m))"
    by (force simp: image_iff)
  then show "\<exists>m'. deep_clean (PDict m) = PDict m' \<and> (k, PNone) \<in> set m'"
    by simp
next
  assume "isnan f \<or> isinf f"
  then show "deep_clean (PDict [(k, PFloat f)]) = PDict [(k, PNone)]" by simp
next
  assume "isnan f \<or> isinf f"
  then show "deep_clean (deep_clean (PDict [(k, PFloat f)])) = PDict []" by simp
next
  assume "isnan f \<or> isinf f"
  then show "deep_clean (deep_clean (PDict [(k, PFloat f)])) \<noteq> deep_clean (PDict [(k, PFloat f)])"
    by simp
next
  have "deep_clean (deep_clean (PDict [(KStr ''tir'', PFloat NaN)])) \<noteq> deep_clean (PDict [(KStr ''tir'', PFloat NaN)])"
    by simp
  then show "\<exists>x. deep_clean (deep_clean x) \<noteq> deep_clean x" by blast
qed

theorem deep_clean_keeps_null_of_non_finite_witness:
  "(KStr ''tir'', PFloat NaN) \<in> set [(KStr ''van'', PInt 1), (KStr ''tir'', PFloat NaN)]
   \<and> isnan NaN
   \<and> (\<exists>m'. deep_clean (PDict [(KStr ''van'', PInt 1), (KStr ''tir'', PFloat NaN)]) = PDict m'
          \<and> (KStr ''tir'', PNone) \<in> set m')
   \<and> deep_clean (deep_clean (PDict [(KStr ''tir'', PFloat NaN)])) = PDict []
   \<and> deep_clean (PDict [(KStr ''tir'', PFloat NaN)]) = PDict [(KStr ''tir'', PNone)]"
  using deep_clean_keeps_null_of_non_finite [of "KStr ''tir''" NaN "[(KStr ''van'', PInt 1), (KStr ''tir'', PFloat NaN)]"]
  by simp

end
